theory Spec2Isabelle
  imports Main "HOL-Library.Word"
begin

section \<open>The interactive installer state and the disk size codec\<close>

text \<open>
  The development embeds two pieces of the repository:
  \<^item> \<^verbatim>\<open>internal/pkg/tui/installer/state.go\<close>: \<^verbatim>\<open>cniPresets\<close>, \<^verbatim>\<open>NewState\<close> and
    \<^verbatim>\<open>State.GenConfig\<close>;
  \<^item> \<^verbatim>\<open>pkg/machinery/config/types/v1alpha1/v1alpha1_types.go\<close>: \<^verbatim>\<open>DiskSize.MarshalYAML\<close>
    and \<^verbatim>\<open>DiskSize.UnmarshalYAML\<close>.
  Go strings are \<open>string\<close>, \<^verbatim>\<open>uint64\<close> is \<open>64 word\<close>, a Go \<^verbatim>\<open>(value, error)\<close> result is
  a sum with the error on the left.
\<close>

subsection \<open>Errors\<close>

text \<open>A Go \<^verbatim>\<open>error\<close> value, identified by its message.\<close>

datatype error = Error string

subsection \<open>The messages of the machine API\<close>

text \<open>
  The generated message types of \<^verbatim>\<open>machineapi\<close> are declared outside the files at hand;
  every record below has the fields that \<^verbatim>\<open>state.go\<close> reads or writes, under the names the
  Go code uses. The enumeration \<^verbatim>\<open>machine.Type\<close> has the three members the code mentions;
  the conversion \<^verbatim>\<open>machineapi.MachineConfig_MachineType(t)\<close> keeps the member.

  \<^verbatim>\<open>NewState\<close> allocates every nested message of the request it builds, and the items
  it creates point at scalar fields only, so a nested message is a nested record. The one
  message pointer that \<^verbatim>\<open>NewState\<close> leaves \<^verbatim>\<open>nil\<close> is \<^verbatim>\<open>CniConfig\<close>, an option.
\<close>

datatype MachineType = TypeInit | TypeControlPlane | TypeJoin

record CNIConfig =
  Name :: string
  Urls :: "string list"

record InstallConfig =
  InstallImage :: string
  InstallDisk :: string

record NetworkConfig =
  Hostname :: string

record MachineConfig =
  Type :: MachineType
  NetworkConfig :: NetworkConfig
  KubernetesVersion :: string
  InstallConfig :: InstallConfig

record ControlPlaneConfig =
  Endpoint :: string

record ClusterNetworkConfig =
  DnsDomain :: string
  CniConfig :: "CNIConfig option"

record ClusterConfig =
  ClusterName :: string
  ControlPlane :: ControlPlaneConfig
  ClusterNetwork :: ClusterNetworkConfig

record GenerateConfigurationRequest =
  ConfigVersion :: string
  MachineConfig :: MachineConfig
  ClusterConfig :: ClusterConfig

text \<open>One entry of the disk inventory (\<^verbatim>\<open>DeviceName\<close>, \<^verbatim>\<open>Model\<close>, \<^verbatim>\<open>Size\<close> in bytes).\<close>

record Disk =
  DeviceName :: string
  Model :: string
  Size :: "64 word"

subsection \<open>What the installer takes from other packages\<close>

text \<open>
  The constants \<^verbatim>\<open>constants.DefaultKubernetesVersion\<close>, \<^verbatim>\<open>images.DefaultInstallerImage\<close>,
  \<^verbatim>\<open>constants.DefaultControlPlanePort\<close> and \<^verbatim>\<open>constants.DefaultCNI\<close>, the generated
  documentation (\<^verbatim>\<open>v1alpha1.XDoc.Describe\<close>) and the functions \<^verbatim>\<open>humanize.Bytes\<close> and
  \<^verbatim>\<open>humanize.ParseBytes\<close> of the library \<^verbatim>\<open>go-humanize\<close> are not part of the files at
  hand. The code is embedded over any value of them: they are the fields of one parameter
  record.
\<close>

datatype Doc =
    NetworkConfigDoc | ClusterNetworkConfigDoc | InstallConfigDoc
  | MachineConfigDoc | ClusterConfigDoc | ControlPlaneConfigDoc

record packages =
  DefaultKubernetesVersion :: string
  DefaultInstallerImage :: string
  DefaultControlPlanePort :: int
  DefaultCNI :: string
  Describe :: "Doc \<Rightarrow> string \<Rightarrow> bool \<Rightarrow> string"
  humanize_Bytes :: "64 word \<Rightarrow> string"
  humanize_ParseBytes :: "string \<Rightarrow> error + 64 word"

subsection \<open>Connection, items, pages\<close>

text \<open>
  Modelled from the spec: \<^verbatim>\<open>Connection\<close> is declared in a file of the package that is
  not at hand. Section 6 of the specification gives its boundary: the two endpoint strings
  \<^verbatim>\<open>bootstrapEndpoint\<close> and \<^verbatim>\<open>nodeEndpoint\<close>, \<^verbatim>\<open>ExpandingCluster()\<close> answering a
  boolean, \<^verbatim>\<open>Disks()\<close> answering a disk list or an error, and the remote call
  \<^verbatim>\<open>GenerateConfiguration\<close> answering a response or an error. The answers are fields of
  the record, so the code is embedded over any collaborator; the response type is left open.
\<close>

record 'r Connection =
  bootstrapEndpoint :: string
  nodeEndpoint :: string
  ExpandingCluster :: bool
  Disks :: "error + Disk list"
  GenerateConfiguration :: "GenerateConfigurationRequest \<Rightarrow> error + 'r"

text \<open>
  A Go \<^verbatim>\<open>interface{}\<close> value passed as an item option in \<^verbatim>\<open>NewState\<close>: a string, a
  machine type, or the header row made by \<^verbatim>\<open>NewTableHeaders\<close>.
\<close>

datatype iface = Str string | MType MachineType | TableHeaders "iface list"

text \<open>
  Modelled from the spec: \<^verbatim>\<open>NewTableHeaders\<close> is declared in a file of the package that
  is not at hand. Section 4.1: the choices carry an explicit header row, the column names
  in order.
\<close>

definition NewTableHeaders :: "iface list \<Rightarrow> iface" where
  "NewTableHeaders headers = TableHeaders headers"

text \<open>
  The location an item is bound to: the address of a field of the request, or of the
  state's own \<^verbatim>\<open>cni\<close> field. The address is the path of the field.
\<close>

datatype dest =
    Ref_Hostname | Ref_DnsDomain | Ref_cni | Ref_InstallImage | Ref_InstallDisk
  | Ref_Type | Ref_ClusterName | Ref_Endpoint | Ref_KubernetesVersion

text \<open>
  Modelled from the spec: \<^verbatim>\<open>Item\<close> and \<^verbatim>\<open>NewItem\<close> are declared in a file of the package
  that is not at hand. Sections 3 and 4.1: an item is a label, a help text, a bound location
  and a choice set, the flattened sequence of the options as it was passed; the constructor
  stores its arguments.
\<close>

record Item =
  item_name :: string
  item_description :: string
  item_dest :: dest
  item_options :: "iface list"

definition NewItem :: "string \<Rightarrow> string \<Rightarrow> dest \<Rightarrow> iface list \<Rightarrow> Item" where
  "NewItem name description dst options =
     \<lparr>item_name = name, item_description = description, item_dest = dst,
      item_options = options\<rparr>"

text \<open>
  Modelled from the spec: \<^verbatim>\<open>Page\<close> and \<^verbatim>\<open>NewPage\<close> are declared in a file of the package
  that is not at hand. Sections 3 and 4.2: a page is a title and the ordered sequence of
  its items, in declaration order.
\<close>

record Page =
  page_name :: string
  page_items :: "Item list"

definition NewPage :: "string \<Rightarrow> Item list \<Rightarrow> Page" where
  "NewPage name its = \<lparr>page_name = name, page_items = its\<rparr>"

text \<open>
  Modelled from the spec: the rows of the table an item displays for its options; the
  item's display code is not among the files at hand. Section 4.1: the choices are a
  flattened sequence, an explicit header row and then the rows, one value per column of
  the header. \<open>chunks n\<close> cuts a flattened sequence into rows of \<open>n\<close> values.
\<close>

function chunks :: "nat \<Rightarrow> 'a list \<Rightarrow> 'a list list" where
  "chunks n xs = (if n = 0 \<or> xs = [] then [] else take n xs # chunks n (drop n xs))"
  by pat_completeness auto
termination
  by (relation "measure (\<lambda>(n, xs). length xs)") auto

declare chunks.simps [simp del]

text \<open>
  Modelled from the spec: the table of a choice set that starts with a header row, read
  from the flattened sequence (Section 4.1); the header is the first row. A sequence of
  the wrong arity is a caller error, and the table is not built (\<open>None\<close>).
\<close>

fun table_rows :: "iface list \<Rightarrow> iface list list option" where
  "table_rows (TableHeaders headers # data) =
     (if headers \<noteq> [] \<and> length data mod length headers = 0
      then Some (headers # chunks (length headers) data)
      else None)"
| "table_rows options = None"

text \<open>The fields of \<^verbatim>\<open>State\<close>, read \<^verbatim>\<open>s.pages\<close>, \<^verbatim>\<open>s.opts\<close>, \<^verbatim>\<open>s.conn\<close>, \<^verbatim>\<open>s.cni\<close>.\<close>

record 'r State =
  s_pages :: "Page list"
  s_opts :: GenerateConfigurationRequest
  s_conn :: "'r Connection"
  s_cni :: string

subsection \<open>Formatting an endpoint\<close>

text \<open>
  \<^verbatim>\<open>fmt.Sprintf("https://%s:%d", host, port)\<close>: the verb \<^verbatim>\<open>%d\<close> writes an integer
  in decimal, with a minus sign when it is negative.
\<close>

function decimal :: "nat \<Rightarrow> string" where
  "decimal n =
     (if n < 10 then [''0123456789'' ! n]
      else decimal (n div 10) @ [''0123456789'' ! (n mod 10)])"
  by pat_completeness auto
termination
  by (relation "measure (\<lambda>n. n)") auto

declare decimal.simps [simp del]

definition fmt_d :: "int \<Rightarrow> string" where
  "fmt_d i = (if i < 0 then CHR ''-'' # decimal (nat (- i)) else decimal (nat i))"

definition Sprintf_endpoint :: "string \<Rightarrow> int \<Rightarrow> string" where
  "Sprintf_endpoint host port = ''https://'' @ host @ '':'' @ fmt_d port"

subsection \<open>The preset table\<close>

definition cniPresets :: "string \<rightharpoonup> CNIConfig" where
  "cniPresets =
     [''cilium'' \<mapsto>
        \<lparr>Name = ''custom'',
         Urls = [''https://raw.githubusercontent.com/cilium/cilium/v1.8/install/kubernetes/quick-install.yaml'']\<rparr>]"

subsection \<open>\<^verbatim>\<open>NewState\<close>\<close>

text \<open>Assignments through the request's nested messages.\<close>

definition set_Endpoint :: "string \<Rightarrow> GenerateConfigurationRequest \<Rightarrow> GenerateConfigurationRequest" where
  "set_Endpoint v r =
     r\<lparr>ClusterConfig := (ClusterConfig r)\<lparr>ControlPlane := (ControlPlane (ClusterConfig r))\<lparr>Endpoint := v\<rparr>\<rparr>\<rparr>"

definition set_InstallDisk :: "string \<Rightarrow> GenerateConfigurationRequest \<Rightarrow> GenerateConfigurationRequest" where
  "set_InstallDisk v r =
     r\<lparr>MachineConfig := (MachineConfig r)\<lparr>InstallConfig := (InstallConfig (MachineConfig r))\<lparr>InstallDisk := v\<rparr>\<rparr>\<rparr>"

definition set_Type :: "MachineType \<Rightarrow> GenerateConfigurationRequest \<Rightarrow> GenerateConfigurationRequest" where
  "set_Type v r = r\<lparr>MachineConfig := (MachineConfig r)\<lparr>Type := v\<rparr>\<rparr>"

definition set_CniConfig :: "CNIConfig option \<Rightarrow> GenerateConfigurationRequest \<Rightarrow> GenerateConfigurationRequest" where
  "set_CniConfig v r =
     r\<lparr>ClusterConfig := (ClusterConfig r)\<lparr>ClusterNetwork := (ClusterNetwork (ClusterConfig r))\<lparr>CniConfig := v\<rparr>\<rparr>\<rparr>"

text \<open>
  The loop \<^verbatim>\<open>for i, disk := range disks.Disks\<close>, on the index, the disks still to visit
  and the two variables the body assigns (\<^verbatim>\<open>opts\<close> and \<^verbatim>\<open>installDiskOptions\<close>).
\<close>

fun range_disks ::
  "packages \<Rightarrow> nat \<Rightarrow> Disk list \<Rightarrow> GenerateConfigurationRequest \<times> iface list
     \<Rightarrow> GenerateConfigurationRequest \<times> iface list" where
  "range_disks pk i [] (opts, installDiskOptions) = (opts, installDiskOptions)"
| "range_disks pk i (disk # rest) (opts, installDiskOptions) =
     range_disks pk (Suc i) rest
       (if i = 0 then set_InstallDisk (DeviceName disk) opts else opts,
        installDiskOptions
          @ [Str (DeviceName disk), Str (Model disk), Str (humanize_Bytes pk (Size disk))])"

definition NewState :: "packages \<Rightarrow> 'r Connection \<Rightarrow> error + 'r State" where
  "NewState pk conn =
    (let opts =
           \<lparr>ConfigVersion = ''v1alpha1'',
            MachineConfig =
              \<lparr>Type = TypeInit,
               NetworkConfig = \<lparr>Hostname = ''''\<rparr>,
               KubernetesVersion = DefaultKubernetesVersion pk,
               InstallConfig =
                 \<lparr>InstallImage = DefaultInstallerImage pk, InstallDisk = ''''\<rparr>\<rparr>,
            ClusterConfig =
              \<lparr>ClusterName = ''talos-default'',
               ControlPlane = \<lparr>Endpoint = ''''\<rparr>,
               ClusterNetwork = \<lparr>DnsDomain = ''cluster.local'', CniConfig = None\<rparr>\<rparr>\<rparr>;
         opts =
           (if ExpandingCluster conn
            then set_Endpoint (Sprintf_endpoint (bootstrapEndpoint conn) (DefaultControlPlanePort pk)) opts
            else set_Endpoint (Sprintf_endpoint (nodeEndpoint conn) (DefaultControlPlanePort pk)) opts);
         installDiskOptions =
           [NewTableHeaders [Str ''device name'', Str ''model name'', Str ''size'']]
     in case Disks conn of
          Inl err \<Rightarrow> Inl err
        | Inr disks \<Rightarrow>
           (let (opts, installDiskOptions) = range_disks pk 0 disks (opts, installDiskOptions);
                (machineTypes, opts) =
                  (if ExpandingCluster conn
                   then ([Str ''worker'', MType TypeJoin,
                          Str ''control plane'', MType TypeControlPlane],
                         set_Type TypeControlPlane opts)
                   else ([Str ''control plane'', MType TypeInit], opts));
                state = \<lparr>s_pages = [], s_opts = opts, s_conn = conn, s_cni = DefaultCNI pk\<rparr>;
                networkConfigItems =
                  [NewItem ''hostname'' (Describe pk NetworkConfigDoc ''hostname'' True)
                     Ref_Hostname [],
                   NewItem ''dns domain'' (Describe pk ClusterNetworkConfigDoc ''dnsDomain'' True)
                     Ref_DnsDomain []];
                networkConfigItems =
                  (if \<not> ExpandingCluster conn
                   then networkConfigItems
                     @ [NewItem ''type'' (Describe pk ClusterNetworkConfigDoc ''cni'' True)
                          Ref_cni
                          [NewTableHeaders [Str ''CNI'', Str ''description''],
                           Str (DefaultCNI pk), Str ''CNI used by Talos by default'',
                           Str ''cilium'', Str ''Cillium 1.8 installed through quick-install.yaml'']]
                   else networkConfigItems);
                state = state\<lparr>s_pages :=
                  [NewPage ''Installer Params''
                     [NewItem ''image'' (Describe pk InstallConfigDoc ''image'' True)
                        Ref_InstallImage [],
                      NewItem ''install disk'' (Describe pk InstallConfigDoc ''disk'' True)
                        Ref_InstallDisk installDiskOptions],
                   NewPage ''Machine Config''
                     [NewItem ''machine type'' (Describe pk MachineConfigDoc ''type'' True)
                        Ref_Type machineTypes,
                      NewItem ''cluster name'' (Describe pk ClusterConfigDoc ''clusterName'' True)
                        Ref_ClusterName [],
                      NewItem ''control plane endpoint''
                        (Describe pk ControlPlaneConfigDoc ''endpoint'' True)
                        Ref_Endpoint [],
                      NewItem ''kubernetes version'' ''Kubernetes version to install.''
                        Ref_KubernetesVersion []],
                   NewPage ''Network Config'' networkConfigItems]\<rparr>
            in Inr state))"

subsection \<open>\<^verbatim>\<open>State.GenConfig\<close>\<close>

text \<open>
  \<^verbatim>\<open>GenConfig\<close> assigns through \<^verbatim>\<open>s.opts\<close> and then calls the connection with
  \<^verbatim>\<open>s.opts\<close>: the model returns the state after the assignment and the result of the call.
\<close>

definition GenConfig :: "'r State \<Rightarrow> 'r State \<times> (error + 'r)" where
  "GenConfig s =
     (let s = (case cniPresets (s_cni s) of
                 Some customCNI \<Rightarrow> s\<lparr>s_opts := set_CniConfig (Some customCNI) (s_opts s)\<rparr>
               | None \<Rightarrow> s)
      in (s, GenerateConfiguration (s_conn s) (s_opts s)))"

subsection \<open>\<^verbatim>\<open>DiskSize\<close>\<close>

type_synonym DiskSize = "64 word"

text \<open>What \<^verbatim>\<open>MarshalYAML\<close> hands to the encoder: a string or an unsigned integer.\<close>

datatype yaml_value = YString string | YUint64 "64 word"

definition MarshalYAML :: "packages \<Rightarrow> DiskSize \<Rightarrow> error + yaml_value" where
  "MarshalYAML pk ds =
     (if ds mod 1000 = 0
      then (let bytesString = humanize_Bytes pk ds
            in case humanize_ParseBytes pk bytesString of
                 Inr parsed \<Rightarrow>
                   if parsed = ds then Inr (YString bytesString) else Inr (YUint64 ds)
               | Inl err \<Rightarrow> Inr (YUint64 ds))
      else Inr (YUint64 ds))"

text \<open>
  \<^verbatim>\<open>UnmarshalYAML\<close> receives the decoder's callback; its first argument here is what
  the callback answers when asked for a string. The result is the new value of the
  receiver, or the error.
\<close>

definition UnmarshalYAML :: "packages \<Rightarrow> error + string \<Rightarrow> error + DiskSize" where
  "UnmarshalYAML pk unmarshal =
     (case unmarshal of
        Inl err \<Rightarrow> Inl err
      | Inr size_str \<Rightarrow>
         (case humanize_ParseBytes pk size_str of
            Inl err \<Rightarrow> Inl err
          | Inr s \<Rightarrow> Inr s))"

subsection \<open>A sample environment\<close>

text \<open>
  Concrete inputs for the closed instances of the theorems below, after the end-to-end
  scenarios of the specification: sample values of the constants, three values of
  \<^verbatim>\<open>go-humanize\<close> (\<^verbatim>\<open>Bytes(1000)\<close>, \<^verbatim>\<open>Bytes(256000000000)\<close> and
  \<^verbatim>\<open>ParseBytes("1.0 kB")\<close>), a node that bootstraps a cluster with one disk, and a node
  that joins the cluster of \<^verbatim>\<open>10.0.0.1\<close> with two disks. The sample remote call answers
  with the request it was given.
\<close>

definition scenario_packages :: packages where
  "scenario_packages =
     \<lparr>DefaultKubernetesVersion = ''1.19.3'',
      DefaultInstallerImage = ''ghcr.io/talos-systems/installer:latest'',
      DefaultControlPlanePort = 6443,
      DefaultCNI = ''flannel'',
      Describe = (\<lambda>doc field short. field),
      humanize_Bytes =
        (\<lambda>n. if n = 1000 then ''1.0 kB'' else if n = 256000000000 then ''256 GB'' else ''0 B''),
      humanize_ParseBytes =
        (\<lambda>s. if s = ''1.0 kB'' then Inr 1000 else Inl (Error ''unhandled size name''))\<rparr>"

definition scenario_bootstrapping :: "GenerateConfigurationRequest Connection" where
  "scenario_bootstrapping =
     \<lparr>bootstrapEndpoint = [],
      nodeEndpoint = ''10.0.0.2'',
      ExpandingCluster = False,
      Disks = Inr [\<lparr>DeviceName = ''/dev/sda'', Model = ''ModelA'', Size = 256000000000\<rparr>],
      GenerateConfiguration = Inr\<rparr>"

definition scenario_expanding :: "GenerateConfigurationRequest Connection" where
  "scenario_expanding =
     \<lparr>bootstrapEndpoint = ''10.0.0.1'',
      nodeEndpoint = ''10.0.0.3'',
      ExpandingCluster = True,
      Disks = Inr [\<lparr>DeviceName = ''/dev/vda'', Model = ''ModelB'', Size = 1000\<rparr>,
                   \<lparr>DeviceName = ''/dev/sda'', Model = ''ModelA'', Size = 256000000000\<rparr>],
      GenerateConfiguration = Inr\<rparr>"

section \<open>Properties\<close>

subsection \<open>Auxiliary facts\<close>

text \<open>
  The loop over the disks: the first disk, visited at index 0, gives the install disk, and
  every disk appends its three options, in order.
\<close>

lemma range_disks_eq:
  "range_disks pk i disks (req, acc) =
     (if disks = [] \<or> i \<noteq> 0 then req else set_InstallDisk (DeviceName (hd disks)) req,
      acc @ concat (map (\<lambda>disk. [Str (DeviceName disk), Str (Model disk),
                                   Str (humanize_Bytes pk (Size disk))]) disks))"
  by (induction disks arbitrary: i req acc) auto

lemma chunks_rows:
  "0 < n \<Longrightarrow> \<forall>r \<in> set rows. length r = n \<Longrightarrow> chunks n (concat rows) = rows"
proof (induction rows)
  case Nil
  then show ?case by (simp add: chunks.simps)
next
  case (Cons r rows)
  then have "r \<noteq> []" by auto
  with Cons show ?case by (subst chunks.simps) simp
qed

lemma length_concat_rows:
  "\<forall>r \<in> set rows. length r = n \<Longrightarrow> length (concat rows) = n * length rows"
  by (induction rows) auto

lemma table_rows_disks:
  "table_rows (NewTableHeaders [h1, h2, h3] # concat (map (\<lambda>d. [f d, g d, h d]) disks)) =
     Some ([h1, h2, h3] # map (\<lambda>d. [f d, g d, h d]) disks)"
proof -
  let ?rows = "map (\<lambda>d. [f d, g d, h d]) disks"
  have len: "\<forall>r \<in> set ?rows. length r = length [h1, h2, h3]" by auto
  have cut: "chunks (length [h1, h2, h3]) (concat ?rows) = ?rows"
    by (rule chunks_rows [OF _ len]) simp
  have arity: "length (concat ?rows) mod length [h1, h2, h3] = 0"
    by (simp only: length_concat_rows [OF len] mod_mult_self1_is_0)
  show ?thesis
    by (simp only: NewTableHeaders_def table_rows.simps cut arity) simp
qed

lemma cniPresets_Some:
  "cniPresets k = Some c \<longleftrightarrow>
     k = ''cilium'' \<and> c = \<lparr>Name = ''custom'', Urls = [''https://raw.githubusercontent.com/cilium/cilium/v1.8/install/kubernetes/quick-install.yaml'']\<rparr>"
  by (auto simp: cniPresets_def)

lemmas NewState_defs =
  NewState_def Let_def range_disks_eq set_Endpoint_def set_InstallDisk_def set_Type_def
  NewPage_def NewItem_def

lemmas scenario_defs =
  scenario_packages_def scenario_bootstrapping_def scenario_expanding_def
  Sprintf_endpoint_def fmt_d_def decimal.simps

subsection \<open>Finalize with a preset\<close>

text \<open>
  C1. For every state whose selected network-plugin key is a key of the preset table
  (the one key is \<^verbatim>\<open>cilium\<close>), \<^verbatim>\<open>GenConfig\<close> sets the network-plugin configuration of
  the request to the preset's value, name \<^verbatim>\<open>custom\<close> and the one quick-install ''https://raw.githubusercontent.com/cilium/cilium/v1.8/install/kubernetes/quick-install.yaml'',
  whatever the field held before; nothing else of the state changes, and this request is
  the one handed to the connection.
\<close>

theorem GenConfig_preset:
  assumes "s_cni s \<in> dom cniPresets"
  shows "s_cni s = ''cilium''
       \<and> CniConfig (ClusterNetwork (ClusterConfig (s_opts (fst (GenConfig s))))) =
           cniPresets (s_cni s)
       \<and> CniConfig (ClusterNetwork (ClusterConfig (s_opts (fst (GenConfig s))))) =
           Some \<lparr>Name = ''custom'', Urls = [''https://raw.githubusercontent.com/cilium/cilium/v1.8/install/kubernetes/quick-install.yaml'']\<rparr>
       \<and> fst (GenConfig s) =
           s\<lparr>s_opts := set_CniConfig (cniPresets (s_cni s)) (s_opts s)\<rparr>
       \<and> snd (GenConfig s) =
           GenerateConfiguration (s_conn s) (set_CniConfig (cniPresets (s_cni s)) (s_opts s))"
proof -
  from assms obtain c where c: "cniPresets (s_cni s) = Some c" by auto
  then have key: "s_cni s = ''cilium''"
    by (simp add: cniPresets_Some)
  have preset: "cniPresets ''cilium'' = Some \<lparr>Name = ''custom'', Urls = [''https://raw.githubusercontent.com/cilium/cilium/v1.8/install/kubernetes/quick-install.yaml'']\<rparr>"
    by (simp add: cniPresets_Some)
  from key preset show ?thesis
    by (simp add: GenConfig_def set_CniConfig_def)
qed

text \<open>
  The bootstrapping scenario, finalized with the key \<^verbatim>\<open>cilium\<close>: the connection
  receives the request with machine type init, install disk \<^verbatim>\<open>/dev/sda\<close> and the preset.
\<close>

theorem GenConfig_preset_witness:
  "s_cni ((projr (NewState scenario_packages scenario_bootstrapping))\<lparr>s_cni := ''cilium''\<rparr>)
     \<in> dom cniPresets
   \<and> snd (GenConfig
       ((projr (NewState scenario_packages scenario_bootstrapping))\<lparr>s_cni := ''cilium''\<rparr>)) =
       Inr \<lparr>ConfigVersion = ''v1alpha1'',
            MachineConfig =
              \<lparr>Type = TypeInit,
               NetworkConfig = \<lparr>Hostname = []\<rparr>,
               KubernetesVersion = ''1.19.3'',
               InstallConfig =
                 \<lparr>InstallImage = ''ghcr.io/talos-systems/installer:latest'',
                  InstallDisk = ''/dev/sda''\<rparr>\<rparr>,
            ClusterConfig =
              \<lparr>ClusterName = ''talos-default'',
               ControlPlane = \<lparr>Endpoint = ''https://10.0.0.2:6443''\<rparr>,
               ClusterNetwork =
                 \<lparr>DnsDomain = ''cluster.local'',
                  CniConfig = Some \<lparr>Name = ''custom'', Urls = [''https://raw.githubusercontent.com/cilium/cilium/v1.8/install/kubernetes/quick-install.yaml'']\<rparr>\<rparr>\<rparr>\<rparr>"
proof -
  let ?s = "(projr (NewState scenario_packages scenario_bootstrapping))\<lparr>s_cni := ''cilium''\<rparr>"
  have h: "s_cni ?s \<in> dom cniPresets"
    by (simp add: cniPresets_def)
  show ?thesis
    using h GenConfig_preset [OF h]
    by (simp add: NewState_defs scenario_defs set_CniConfig_def cniPresets_def)
qed

subsection \<open>Finalize without a preset\<close>

text \<open>
  C7. For every state whose selected network-plugin key is not a key of the preset table
  (\<^verbatim>\<open>flannel\<close> is not one), \<^verbatim>\<open>GenConfig\<close> leaves the state, and so the network-plugin
  configuration of the request, as it was, and returns what the connection's
  \<^verbatim>\<open>GenerateConfiguration\<close> answers for that request, response or error, unchanged.
\<close>

theorem GenConfig_no_preset:
  assumes "s_cni s \<notin> dom cniPresets"
  shows "''flannel'' \<notin> dom cniPresets
       \<and> fst (GenConfig s) = s
       \<and> CniConfig (ClusterNetwork (ClusterConfig (s_opts (fst (GenConfig s))))) =
           CniConfig (ClusterNetwork (ClusterConfig (s_opts s)))
       \<and> snd (GenConfig s) = GenerateConfiguration (s_conn s) (s_opts s)"
proof -
  from assms have "cniPresets (s_cni s) = None" by auto
  then show ?thesis
    by (simp add: GenConfig_def) (simp add: cniPresets_def dom_def)
qed

text \<open>
  The bootstrapping scenario, finalized with the default key, and the same state over a
  connection whose call fails: no plugin configuration is sent, and the error comes back.
\<close>

theorem GenConfig_no_preset_witness:
  "s_cni (projr (NewState scenario_packages scenario_bootstrapping)) = ''flannel''
   \<and> s_cni (projr (NewState scenario_packages scenario_bootstrapping)) \<notin> dom cniPresets
   \<and> map_sum id (\<lambda>r. CniConfig (ClusterNetwork (ClusterConfig r)))
       (snd (GenConfig (projr (NewState scenario_packages scenario_bootstrapping)))) =
       Inr None
   \<and> snd (GenConfig (projr (NewState scenario_packages
            (scenario_bootstrapping\<lparr>GenerateConfiguration := \<lambda>r. Inl (Error ''unavailable'')\<rparr>)))) =
       Inl (Error ''unavailable'')"
proof -
  let ?s = "projr (NewState scenario_packages scenario_bootstrapping)"
  let ?s' = "projr (NewState scenario_packages
               (scenario_bootstrapping\<lparr>GenerateConfiguration := \<lambda>r. Inl (Error ''unavailable'')\<rparr>))"
  have h: "s_cni ?s \<notin> dom cniPresets"
    by (simp add: NewState_defs scenario_defs cniPresets_def)
  have h': "s_cni ?s' \<notin> dom cniPresets"
    by (simp add: NewState_defs scenario_defs cniPresets_def)
  show ?thesis
    using h GenConfig_no_preset [OF h] GenConfig_no_preset [OF h']
    by (simp add: NewState_defs scenario_defs)
qed

subsection \<open>Construction: the control-plane endpoint\<close>

text \<open>
  C2. For every connection whose disk query succeeds, \<^verbatim>\<open>NewState\<close> returns a state whose
  request has the control-plane endpoint \<^verbatim>\<open>https://<host>:<port>\<close>, where the host is the
  bootstrap endpoint when the connection reports an expanding cluster and the node's own
  endpoint otherwise, and the port is the default control-plane port in decimal.
\<close>

theorem NewState_endpoint:
  assumes "Disks conn = Inr disks"
  shows "\<exists>s. NewState pk conn = Inr s
           \<and> Endpoint (ControlPlane (ClusterConfig (s_opts s))) =
               ''https://''
               @ (if ExpandingCluster conn then bootstrapEndpoint conn else nodeEndpoint conn)
               @ '':'' @ fmt_d (DefaultControlPlanePort pk)"
  using assms by (simp add: NewState_defs Sprintf_endpoint_def)

text \<open>The expanding scenario, with the bootstrap endpoint \<^verbatim>\<open>10.0.0.1\<close>.\<close>

theorem NewState_endpoint_witness:
  "\<exists>s. NewState scenario_packages scenario_expanding = Inr s
      \<and> Endpoint (ControlPlane (ClusterConfig (s_opts s))) = ''https://10.0.0.1:6443''"
proof -
  have h: "Disks scenario_expanding =
             Inr [\<lparr>DeviceName = ''/dev/vda'', Model = ''ModelB'', Size = 1000\<rparr>,
                  \<lparr>DeviceName = ''/dev/sda'', Model = ''ModelA'', Size = 256000000000\<rparr>]"
    by (simp add: scenario_expanding_def)
  show ?thesis
    using NewState_endpoint [OF h, of scenario_packages]
    by (simp add: NewState_defs scenario_defs)
qed

subsection \<open>Construction: the install disk and its choices\<close>

text \<open>
  C3. For every connection whose disk query answers a list of \<open>N \<ge> 1\<close> disks,
  \<^verbatim>\<open>NewState\<close> returns a state whose request has the first disk's device name as install
  disk, and whose install-disk item carries the header (\<^verbatim>\<open>device name\<close>,
  \<^verbatim>\<open>model name\<close>, \<^verbatim>\<open>size\<close>) followed by device name, model and humanized size of
  every disk, in the order of the list: a table of \<open>N + 1\<close> rows.
\<close>

theorem NewState_install_disk:
  assumes "Disks conn = Inr (d # ds)"
  shows "\<exists>s. NewState pk conn = Inr s
           \<and> InstallDisk (InstallConfig (MachineConfig (s_opts s))) = DeviceName d
           \<and> item_name (page_items (s_pages s ! 0) ! 1) = ''install disk''
           \<and> item_dest (page_items (s_pages s ! 0) ! 1) = Ref_InstallDisk
           \<and> item_options (page_items (s_pages s ! 0) ! 1) =
               NewTableHeaders [Str ''device name'', Str ''model name'', Str ''size'']
               # concat (map (\<lambda>disk. [Str (DeviceName disk), Str (Model disk),
                                        Str (humanize_Bytes pk (Size disk))]) (d # ds))
           \<and> table_rows (item_options (page_items (s_pages s ! 0) ! 1)) =
               Some ([Str ''device name'', Str ''model name'', Str ''size'']
                     # map (\<lambda>disk. [Str (DeviceName disk), Str (Model disk),
                                      Str (humanize_Bytes pk (Size disk))]) (d # ds))
           \<and> map_option length (table_rows (item_options (page_items (s_pages s ! 0) ! 1))) =
               Some (length (d # ds) + 1)"
proof -
  let ?row = "\<lambda>disk. [Str (DeviceName disk), Str (Model disk), Str (humanize_Bytes pk (Size disk))]"
  let ?options = "NewTableHeaders [Str ''device name'', Str ''model name'', Str ''size'']
                  # concat (map ?row (d # ds))"
  have rows: "table_rows ?options =
                Some ([Str ''device name'', Str ''model name'', Str ''size''] # map ?row (d # ds))"
    by (rule table_rows_disks)
  from assms have "\<exists>s. NewState pk conn = Inr s
      \<and> InstallDisk (InstallConfig (MachineConfig (s_opts s))) = DeviceName d
      \<and> item_name (page_items (s_pages s ! 0) ! 1) = ''install disk''
      \<and> item_dest (page_items (s_pages s ! 0) ! 1) = Ref_InstallDisk
      \<and> item_options (page_items (s_pages s ! 0) ! 1) = ?options"
    by (simp add: NewState_defs)
  then obtain s where s: "NewState pk conn = Inr s"
    and disk: "InstallDisk (InstallConfig (MachineConfig (s_opts s))) = DeviceName d"
    and item: "item_name (page_items (s_pages s ! 0) ! 1) = ''install disk''"
              "item_dest (page_items (s_pages s ! 0) ! 1) = Ref_InstallDisk"
    and options: "item_options (page_items (s_pages s ! 0) ! 1) = ?options"
    by blast
  from rows options have
    "map_option length (table_rows (item_options (page_items (s_pages s ! 0) ! 1))) =
       Some (length (d # ds) + 1)"
    by simp
  with s disk item options rows show ?thesis by simp
qed

text \<open>The expanding scenario: two disks, three rows, the first disk as default.\<close>

theorem NewState_install_disk_witness:
  "\<exists>s. NewState scenario_packages scenario_expanding = Inr s
     \<and> InstallDisk (InstallConfig (MachineConfig (s_opts s))) = ''/dev/vda''
     \<and> table_rows (item_options (page_items (s_pages s ! 0) ! 1)) =
         Some [[Str ''device name'', Str ''model name'', Str ''size''],
               [Str ''/dev/vda'', Str ''ModelB'', Str ''1.0 kB''],
               [Str ''/dev/sda'', Str ''ModelA'', Str ''256 GB'']]
     \<and> map_option length (table_rows (item_options (page_items (s_pages s ! 0) ! 1))) =
         Some 3"
proof -
  have h: "Disks scenario_expanding =
             Inr [\<lparr>DeviceName = ''/dev/vda'', Model = ''ModelB'', Size = 1000\<rparr>,
                  \<lparr>DeviceName = ''/dev/sda'', Model = ''ModelA'', Size = 256000000000\<rparr>]"
    by (simp add: scenario_expanding_def)
  show ?thesis
    using NewState_install_disk [OF h, of scenario_packages]
    by (simp add: NewState_defs scenario_defs)
qed

text \<open>
  C9. For every connection whose disk query answers the empty list, \<^verbatim>\<open>NewState\<close> still
  returns a state; its install-disk item carries the header row only, and the install
  disk of the request keeps its zero value, the empty string.
\<close>

theorem NewState_no_disks:
  assumes "Disks conn = Inr []"
  shows "\<exists>s. NewState pk conn = Inr s
           \<and> InstallDisk (InstallConfig (MachineConfig (s_opts s))) = []
           \<and> item_name (page_items (s_pages s ! 0) ! 1) = ''install disk''
           \<and> item_dest (page_items (s_pages s ! 0) ! 1) = Ref_InstallDisk
           \<and> item_options (page_items (s_pages s ! 0) ! 1) =
               [NewTableHeaders [Str ''device name'', Str ''model name'', Str ''size'']]
           \<and> table_rows (item_options (page_items (s_pages s ! 0) ! 1)) =
               Some [[Str ''device name'', Str ''model name'', Str ''size'']]"
  using assms by (simp add: NewState_defs NewTableHeaders_def chunks.simps)

text \<open>The bootstrapping scenario on a node without disks.\<close>

theorem NewState_no_disks_witness:
  "\<exists>s. NewState scenario_packages (scenario_bootstrapping\<lparr>Disks := Inr []\<rparr>) = Inr s
     \<and> InstallDisk (InstallConfig (MachineConfig (s_opts s))) = []
     \<and> table_rows (item_options (page_items (s_pages s ! 0) ! 1)) =
         Some [[Str ''device name'', Str ''model name'', Str ''size'']]"
proof -
  have h: "Disks (scenario_bootstrapping\<lparr>Disks := Inr []\<rparr>) = Inr []"
    by simp
  show ?thesis
    using NewState_no_disks [OF h, of scenario_packages]
    by (simp add: NewState_defs scenario_defs)
qed

text \<open>
  C6. For every connection whose disk query answers an error, \<^verbatim>\<open>NewState\<close> returns that
  error and no state.
\<close>

theorem NewState_disks_error:
  assumes "Disks conn = Inl err"
  shows "NewState pk conn = Inl err"
  using assms by (simp add: NewState_def)

text \<open>The bootstrapping scenario with a failing disk query.\<close>

theorem NewState_disks_error_witness:
  "NewState scenario_packages (scenario_bootstrapping\<lparr>Disks := Inl (Error ''unavailable'')\<rparr>) =
     Inl (Error ''unavailable'')"
proof -
  have h: "Disks (scenario_bootstrapping\<lparr>Disks := Inl (Error ''unavailable'')\<rparr>) =
             Inl (Error ''unavailable'')"
    by simp
  show ?thesis
    using NewState_disks_error [OF h, of scenario_packages] by simp
qed

subsection \<open>Construction: the machine type\<close>

text \<open>
  C4. For every connection whose disk query succeeds, the choices of the machine-type item
  and the machine type of the request depend on \<^verbatim>\<open>ExpandingCluster()\<close> alone: when it
  is true, the choices are \<^verbatim>\<open>worker\<close> (the join type) and \<^verbatim>\<open>control plane\<close> (the
  control-plane type) and the request has the control-plane type; when it is false, the one
  choice is \<^verbatim>\<open>control plane\<close> (the init type) and the request has the init type.
\<close>

theorem NewState_machine_type:
  assumes "Disks conn = Inr disks"
  shows "\<exists>s. NewState pk conn = Inr s
           \<and> item_name (page_items (s_pages s ! 1) ! 0) = ''machine type''
           \<and> item_dest (page_items (s_pages s ! 1) ! 0) = Ref_Type
           \<and> item_options (page_items (s_pages s ! 1) ! 0) =
               (if ExpandingCluster conn
                then [Str ''worker'', MType TypeJoin, Str ''control plane'', MType TypeControlPlane]
                else [Str ''control plane'', MType TypeInit])
           \<and> Type (MachineConfig (s_opts s)) =
               (if ExpandingCluster conn then TypeControlPlane else TypeInit)"
  using assms by (simp add: NewState_defs)

text \<open>The expanding scenario: two choices, control plane as default.\<close>

theorem NewState_machine_type_witness:
  "\<exists>s. NewState scenario_packages scenario_expanding = Inr s
     \<and> item_options (page_items (s_pages s ! 1) ! 0) =
         [Str ''worker'', MType TypeJoin, Str ''control plane'', MType TypeControlPlane]
     \<and> Type (MachineConfig (s_opts s)) = TypeControlPlane"
proof -
  have h: "Disks scenario_expanding =
             Inr [\<lparr>DeviceName = ''/dev/vda'', Model = ''ModelB'', Size = 1000\<rparr>,
                  \<lparr>DeviceName = ''/dev/sda'', Model = ''ModelA'', Size = 256000000000\<rparr>]"
    by (simp add: scenario_expanding_def)
  show ?thesis
    using NewState_machine_type [OF h, of scenario_packages]
    by (simp add: NewState_defs scenario_defs)
qed

subsection \<open>Construction: the pages\<close>

text \<open>
  C5. For every connection whose disk query succeeds, \<^verbatim>\<open>NewState\<close> returns a state with
  exactly three pages, in this order: \<^verbatim>\<open>Installer Params\<close> (image; install disk, with
  choices), \<^verbatim>\<open>Machine Config\<close> (machine type, with choices; cluster name; control plane
  endpoint; kubernetes version) and \<^verbatim>\<open>Network Config\<close> (hostname; dns domain). The item
  bound to the network-plugin key is on the \<^verbatim>\<open>Network Config\<close> page, as its third item
  with the default plugin and \<^verbatim>\<open>cilium\<close> as choices, exactly when the connection does
  not report an expanding cluster.
\<close>

theorem NewState_pages:
  assumes "Disks conn = Inr disks"
  shows "\<exists>s. NewState pk conn = Inr s
           \<and> map page_name (s_pages s) =
               [''Installer Params'', ''Machine Config'', ''Network Config'']
           \<and> map (\<lambda>p. map item_name (page_items p)) (s_pages s) =
               [[''image'', ''install disk''],
                [''machine type'', ''cluster name'', ''control plane endpoint'',
                 ''kubernetes version''],
                [''hostname'', ''dns domain''] @ (if ExpandingCluster conn then [] else [''type''])]
           \<and> map (\<lambda>p. map item_dest (page_items p)) (s_pages s) =
               [[Ref_InstallImage, Ref_InstallDisk],
                [Ref_Type, Ref_ClusterName, Ref_Endpoint, Ref_KubernetesVersion],
                [Ref_Hostname, Ref_DnsDomain] @ (if ExpandingCluster conn then [] else [Ref_cni])]
           \<and> map (\<lambda>p. map (\<lambda>it. item_options it = []) (page_items p)) (s_pages s) =
               [[True, False],
                [False, True, True, True],
                [True, True] @ (if ExpandingCluster conn then [] else [False])]
           \<and> (Ref_cni \<in> set (map item_dest (page_items (s_pages s ! 2)))) =
               (\<not> ExpandingCluster conn)
           \<and> (ExpandingCluster conn \<or>
                item_options (page_items (s_pages s ! 2) ! 2) =
                  [NewTableHeaders [Str ''CNI'', Str ''description''],
                   Str (DefaultCNI pk), Str ''CNI used by Talos by default'',
                   Str ''cilium'', Str ''Cillium 1.8 installed through quick-install.yaml''])"
  using assms by (simp add: NewState_defs NewTableHeaders_def)

text \<open>
  The bootstrapping scenario has the plugin item, with its two choices; the expanding
  scenario has two items on the last page.
\<close>

theorem NewState_pages_witness:
  "(\<exists>s. NewState scenario_packages scenario_bootstrapping = Inr s
      \<and> map page_name (s_pages s) =
          [''Installer Params'', ''Machine Config'', ''Network Config'']
      \<and> map (\<lambda>p. map item_name (page_items p)) (s_pages s) =
          [[''image'', ''install disk''],
           [''machine type'', ''cluster name'', ''control plane endpoint'',
            ''kubernetes version''],
           [''hostname'', ''dns domain'', ''type'']]
      \<and> table_rows (item_options (page_items (s_pages s ! 2) ! 2)) =
          Some [[Str ''CNI'', Str ''description''],
                [Str ''flannel'', Str ''CNI used by Talos by default''],
                [Str ''cilium'', Str ''Cillium 1.8 installed through quick-install.yaml'']])
   \<and> (\<exists>s. NewState scenario_packages scenario_expanding = Inr s
      \<and> map (\<lambda>p. map item_name (page_items p)) (s_pages s) =
          [[''image'', ''install disk''],
           [''machine type'', ''cluster name'', ''control plane endpoint'',
            ''kubernetes version''],
           [''hostname'', ''dns domain'']])"
proof -
  have h: "Disks scenario_bootstrapping =
             Inr [\<lparr>DeviceName = ''/dev/sda'', Model = ''ModelA'', Size = 256000000000\<rparr>]"
    by (simp add: scenario_bootstrapping_def)
  have h': "Disks scenario_expanding =
             Inr [\<lparr>DeviceName = ''/dev/vda'', Model = ''ModelB'', Size = 1000\<rparr>,
                  \<lparr>DeviceName = ''/dev/sda'', Model = ''ModelA'', Size = 256000000000\<rparr>]"
    by (simp add: scenario_expanding_def)
  show ?thesis
    using NewState_pages [OF h, of scenario_packages] NewState_pages [OF h', of scenario_packages]
    by (simp add: NewState_defs scenario_defs NewTableHeaders_def chunks.simps mod_Suc)
qed

subsection \<open>Construction: the fixed defaults\<close>

text \<open>
  C8. For every connection whose disk query succeeds, the request of the state that
  \<^verbatim>\<open>NewState\<close> returns has the configuration version \<^verbatim>\<open>v1alpha1\<close>, the default
  Kubernetes version, the default install image, the cluster name \<^verbatim>\<open>talos-default\<close>
  and the DNS domain \<^verbatim>\<open>cluster.local\<close>.
\<close>

theorem NewState_defaults:
  assumes "Disks conn = Inr disks"
  shows "\<exists>s. NewState pk conn = Inr s
           \<and> ConfigVersion (s_opts s) = ''v1alpha1''
           \<and> KubernetesVersion (MachineConfig (s_opts s)) = DefaultKubernetesVersion pk
           \<and> InstallImage (InstallConfig (MachineConfig (s_opts s))) = DefaultInstallerImage pk
           \<and> ClusterName (ClusterConfig (s_opts s)) = ''talos-default''
           \<and> DnsDomain (ClusterNetwork (ClusterConfig (s_opts s))) = ''cluster.local''"
  using assms by (simp add: NewState_defs)

text \<open>The bootstrapping scenario, with the sample constants.\<close>

theorem NewState_defaults_witness:
  "\<exists>s. NewState scenario_packages scenario_bootstrapping = Inr s
     \<and> ConfigVersion (s_opts s) = ''v1alpha1''
     \<and> KubernetesVersion (MachineConfig (s_opts s)) = ''1.19.3''
     \<and> InstallImage (InstallConfig (MachineConfig (s_opts s))) =
         ''ghcr.io/talos-systems/installer:latest''
     \<and> ClusterName (ClusterConfig (s_opts s)) = ''talos-default''
     \<and> DnsDomain (ClusterNetwork (ClusterConfig (s_opts s))) = ''cluster.local''"
proof -
  have h: "Disks scenario_bootstrapping =
             Inr [\<lparr>DeviceName = ''/dev/sda'', Model = ''ModelA'', Size = 256000000000\<rparr>]"
    by (simp add: scenario_bootstrapping_def)
  show ?thesis
    using NewState_defaults [OF h, of scenario_packages]
    by (simp add: NewState_defs scenario_defs)
qed

subsection \<open>The disk size codec\<close>

text \<open>
  C10. For every disk size, whenever \<^verbatim>\<open>MarshalYAML\<close> emits a string and not the integer,
  the size is a multiple of 1000, the string is the humanized size, and parsing the string
  with \<^verbatim>\<open>humanize.ParseBytes\<close>, as \<^verbatim>\<open>UnmarshalYAML\<close> does, gives the size back exactly.
\<close>

theorem MarshalYAML_roundtrip:
  assumes "MarshalYAML pk ds = Inr (YString str)"
  shows "ds mod 1000 = 0 \<and> str = humanize_Bytes pk ds
       \<and> humanize_ParseBytes pk str = Inr ds
       \<and> UnmarshalYAML pk (Inr str) = Inr ds"
  using assms
  by (auto simp: MarshalYAML_def UnmarshalYAML_def Let_def split: if_splits sum.splits)

text \<open>The size 1000, written \<^verbatim>\<open>1.0 kB\<close>.\<close>

theorem MarshalYAML_roundtrip_witness:
  "MarshalYAML scenario_packages 1000 = Inr (YString ''1.0 kB'')
     \<and> humanize_ParseBytes scenario_packages ''1.0 kB'' = Inr 1000
     \<and> UnmarshalYAML scenario_packages (Inr ''1.0 kB'') = Inr 1000"
proof -
  have h: "MarshalYAML scenario_packages 1000 = Inr (YString ''1.0 kB'')"
    by (simp add: MarshalYAML_def scenario_packages_def)
  show ?thesis
    using h MarshalYAML_roundtrip [OF h] by blast
qed

end
